theory Spec2Isabelle
  imports Complex_Main "HOL-Library.Multiset"
begin

section \<open>Data model of \<^verbatim>\<open>esm_analysis/carbon.py\<close>\<close>

text \<open>
  The module works on xarray objects holding floating-point numbers. The embedding keeps
  the structure of these objects and takes the numbers as reals: rounding, NaN and the
  infinities of IEEE arithmetic are outside the model, and a division by zero has HOL's
  value instead of numpy's \<open>inf\<close> or \<open>nan\<close>. The exceptions are \<^verbatim>\<open>co2_sol\<close> and
  \<^verbatim>\<open>schmidt\<close>: what is asked of them is the very same result after a reordering of the
  summands of a mean, which rounding decides, so their model rounds every operation as
  float64 arithmetic does.

  A time stamp is a year and a calendar month. A series holds the values of one grid cell
  along the time axis; a field (a DataArray with a time axis) holds one series per grid
  cell, all spatial axes flattened into the cell index; a reduced field (a DataArray whose
  time axis has been averaged away) holds one value per grid cell. A Dataset is its time
  coordinate and its data variables in their order. The variables of a Dataset share one
  coordinate system, so that the pointwise operations below meet fields of equal shape.
\<close>

type_synonym stamp = "int \<times> nat"
type_synonym series = "real list"
type_synonym field = "series list"
type_synonym reduced = "real list"

record dataset =
  time :: "stamp list"
  data_vars :: "(string \<times> field) list"

type_synonym rdataset = "(string \<times> reduced) list"

text \<open>The value of a dict entry handed to \<^verbatim>\<open>xr.Dataset\<close>: a Python scalar or an array.\<close>

datatype darray = Scalar real | Array field

datatype error =
    MissingVariables "string list"  \<comment> \<open>the ValueError of \<^verbatim>\<open>_check_variables\<close>, with \<^verbatim>\<open>missingVars\<close>\<close>
  | OrderRequired                   \<comment> \<open>the KeyError raised for \<^verbatim>\<open>detrend and not order\<close>\<close>
  | KeyError string                 \<comment> \<open>\<^verbatim>\<open>ds[name]\<close> on a Dataset without that variable\<close>
  | ConcatEmpty                     \<comment> \<open>the ValueError of \<^verbatim>\<open>xr.concat\<close> on an empty list\<close>
  | IndexError                      \<comment> \<open>position \<^verbatim>\<open>0\<close> or \<^verbatim>\<open>-1\<close> of an empty axis\<close>

definition names :: "dataset \<Rightarrow> string list" where
  "names ds = map fst (data_vars ds)"

definition getitem :: "dataset \<Rightarrow> string \<Rightarrow> error + field" where
  "getitem ds k = (case map_of (data_vars ds) k of None \<Rightarrow> Inl (KeyError k) | Some f \<Rightarrow> Inr f)"

subsection \<open>Pointwise arithmetic on fields\<close>

definition fmap :: "(real \<Rightarrow> real) \<Rightarrow> field \<Rightarrow> field" where
  "fmap g a = map (map g) a"

definition fbin :: "(real \<Rightarrow> real \<Rightarrow> real) \<Rightarrow> field \<Rightarrow> field \<Rightarrow> field" where
  "fbin g a b = map2 (map2 g) a b"

text \<open>The shape of a field: the length of the time axis at every grid cell.\<close>

definition shape :: "field \<Rightarrow> nat list" where
  "shape f = map length f"

text \<open>\<^verbatim>\<open>xr.Dataset(d) * arr\<close>: every variable times the array, a scalar variable broadcast.\<close>

definition times_array :: "darray \<Rightarrow> field \<Rightarrow> field" where
  "times_array v p = (case v of Scalar c \<Rightarrow> fmap (\<lambda>x. c * x) p | Array a \<Rightarrow> fbin (\<lambda>x y. x * y) a p)"

definition dict_times_array :: "(string \<times> darray) list \<Rightarrow> field \<Rightarrow> (string \<times> field) list" where
  "dict_times_array d p = map (\<lambda>(k, v). (k, times_array v p)) d"

section \<open>\<^verbatim>\<open>spco2_sensitivity\<close>\<close>

definition requiredVars :: "string list" where
  "requiredVars = [''spco2'', ''tos'', ''sos'', ''talkos'', ''dissicos'']"

definition check_variables :: "dataset \<Rightarrow> error + unit" where
  "check_variables ds =
     (if \<not> list_all (\<lambda>i. i \<in> set (names ds)) requiredVars
      then Inl (MissingVariables (filter (\<lambda>i. i \<notin> set (names ds)) requiredVars))
      else Inr ())"

definition buffer_factor_ALK :: "field \<Rightarrow> field \<Rightarrow> field" where
  "buffer_factor_ALK ALK DIC =
     fbin (\<lambda>x y. x / y) (fmap (\<lambda>x. - (x ^ 2)) ALK)
       (fbin (\<lambda>x y. x * y) (fbin (\<lambda>x y. x - y) (fmap (\<lambda>x. 2 * x) DIC) ALK)
                            (fbin (\<lambda>x y. x - y) ALK DIC))"

definition buffer_factor_DIC :: "field \<Rightarrow> field \<Rightarrow> field" where
  "buffer_factor_DIC ALK DIC =
     fbin (\<lambda>x y. x / y)
       (fbin (\<lambda>x y. x - y) (fbin (\<lambda>x y. x * y) (fmap (\<lambda>x. 3 * x) ALK) DIC)
                            (fmap (\<lambda>x. 2 * x ^ 2) DIC))
       (fbin (\<lambda>x y. x * y) (fbin (\<lambda>x y. x - y) (fmap (\<lambda>x. 2 * x) DIC) ALK)
                            (fbin (\<lambda>x y. x - y) ALK DIC))"

definition sensitivity_dict :: "field \<Rightarrow> field \<Rightarrow> field \<Rightarrow> (string \<times> darray) list" where
  "sensitivity_dict DIC ALK SALT =
     [(''tos'', Scalar 0.0423),
      (''sos'', Array (fmap (\<lambda>x. 1 / x) SALT)),
      (''talkos'', Array (fbin (\<lambda>x y. x * y) (fmap (\<lambda>x. 1 / x) ALK) (buffer_factor_ALK ALK DIC))),
      (''dissicos'', Array (fbin (\<lambda>x y. x * y) (fmap (\<lambda>x. 1 / x) DIC) (buffer_factor_DIC ALK DIC)))]"

definition spco2_sensitivity :: "dataset \<Rightarrow> error + dataset" where
  "spco2_sensitivity ds =
     (case check_variables ds of Inl e \<Rightarrow> Inl e | Inr _ \<Rightarrow>
      case getitem ds ''dissicos'' of Inl e \<Rightarrow> Inl e | Inr DIC \<Rightarrow>
      case getitem ds ''talkos'' of Inl e \<Rightarrow> Inl e | Inr ALK \<Rightarrow>
      case getitem ds ''sos'' of Inl e \<Rightarrow> Inl e | Inr SALT \<Rightarrow>
      case getitem ds ''spco2'' of Inl e \<Rightarrow> Inl e | Inr pCO2 \<Rightarrow>
        Inr \<lparr>time = time ds,
             data_vars = dict_times_array (sensitivity_dict DIC ALK SALT) pCO2\<rparr>)"

section \<open>Solubility, Schmidt number and potential pCO2\<close>

text \<open>The mean of the values of a series, over the reals.\<close>

definition mean :: "real list \<Rightarrow> real" where
  "mean xs = sum_list xs / real (length xs)"

subsection \<open>float64 arithmetic\<close>

text \<open>
  A float64 value is taken as the real number it stands for. \<open>fl64 x\<close> is the float64
  nearest to \<open>x\<close>: the multiple of the unit in the last place of \<open>x\<close> (53 significant
  bits) that is nearest to \<open>x\<close>, the even one in a tie. Every float64 operation is the exact
  operation followed by \<open>fl64\<close>, and a decimal literal of the source is the float64 nearest
  to it. Overflow, subnormal numbers, signed zeros, infinities and NaN are outside the model.
\<close>

definition round_even :: "real \<Rightarrow> int" where
  "round_even x =
     (let n = \<lfloor>x\<rfloor>; r = x - of_int n
      in if r < 1 / 2 then n else if 1 / 2 < r then n + 1 else if even n then n else n + 1)"

text \<open>The power of two with an integer exponent.\<close>

definition pow2 :: "int \<Rightarrow> real" where
  "pow2 e = (if 0 \<le> e then 2 ^ nat e else 1 / 2 ^ nat (- e))"

definition fl64 :: "real \<Rightarrow> real" where
  "fl64 x =
     (if x = 0 then 0
      else let ulp = pow2 (\<lfloor>log 2 \<bar>x\<bar>\<rfloor> - 52)
           in of_int (round_even (x / ulp)) * ulp)"

definition add64 :: "real \<Rightarrow> real \<Rightarrow> real" where
  "add64 x y = fl64 (x + y)"

definition sub64 :: "real \<Rightarrow> real \<Rightarrow> real" where
  "sub64 x y = fl64 (x - y)"

definition mul64 :: "real \<Rightarrow> real \<Rightarrow> real" where
  "mul64 x y = fl64 (x * y)"

definition div64 :: "real \<Rightarrow> real \<Rightarrow> real" where
  "div64 x y = fl64 (x / y)"

text \<open>\<^verbatim>\<open>x ** n\<close> for a float64 \<open>x\<close> and a small integer \<open>n\<close>, taken as correctly rounded.\<close>

definition pow64 :: "real \<Rightarrow> nat \<Rightarrow> real" where
  "pow64 x n = fl64 (x ^ n)"

text \<open>
  \<^verbatim>\<open>np.mean\<close> of a series of float64 values: the values are added up in float64, starting
  from zero, and the sum is divided by their number. The model adds them one after the other
  in their order, as numpy does for fewer than eight values; for longer arrays numpy adds in
  blocks, in another order of the same additions.
\<close>

definition np_sum :: "real list \<Rightarrow> real" where
  "np_sum xs = foldl add64 0 xs"

definition np_mean :: "real list \<Rightarrow> real" where
  "np_mean xs = div64 (np_sum xs) (real (length xs))"

subsection \<open>\<^verbatim>\<open>co2_sol\<close> and \<^verbatim>\<open>schmidt\<close>\<close>

text \<open>
  \<^verbatim>\<open>np.log\<close> and \<^verbatim>\<open>np.exp\<close> are functions of the C library, whose rounding in the last bit is
  not fixed: they are parameters of the model.
\<close>

definition co2_sol :: "(real \<Rightarrow> real) \<Rightarrow> (real \<Rightarrow> real) \<Rightarrow> real list \<Rightarrow> real list \<Rightarrow> real" where
  "co2_sol np_log np_exp t s =
     (let a = map fl64 [-162.8301, 218.2968, 90.9241, -1.47696];
          b = map fl64 [0.025695, -0.025225, 0.0049867];
          t = mul64 (add64 (np_mean t) (fl64 273.15)) (fl64 0.01);
          s = np_mean s;
          t_sq = pow64 t 2;
          t_inv = div64 (fl64 1.0) t;
          log_t = np_log t;
          d0 = add64 (add64 (mul64 (b ! 2) t_sq) (mul64 (b ! 1) t)) (b ! 0)
      in np_exp (add64 (add64 (add64 (add64 (a ! 0) (mul64 (a ! 1) t_inv))
                                     (mul64 (a ! 2) log_t))
                              (mul64 (a ! 3) t_sq))
                       (mul64 d0 s)))"

definition schmidt :: "real list \<Rightarrow> real" where
  "schmidt t =
     (let c = map fl64 [2073.1, 125.62, 3.6276, 0.043219];
          t = np_mean t
      in sub64 (add64 (sub64 (c ! 0) (mul64 (c ! 1) t)) (mul64 (c ! 2) (pow64 t 2)))
               (mul64 (c ! 3) (pow64 t 3)))"

subsection \<open>\<^verbatim>\<open>potential_pco2\<close>\<close>

text \<open>
  \<^verbatim>\<open>potential_pco2\<close> works along the depth axis: its arguments hold one row per depth
  level, each row the values at the remaining (flattened) coordinates. \<^verbatim>\<open>isel(depth=0)\<close>
  takes the first row and fails on an empty depth axis; the surface row is broadcast
  against every level.
\<close>

definition potential_pco2 :: "real list list \<Rightarrow> real list list \<Rightarrow> error + real list list" where
  "potential_pco2 t_insitu pco2_insitu =
     (case t_insitu of
        [] \<Rightarrow> Inl IndexError
      | t_sfc # _ \<Rightarrow>
          Inr (map2 (\<lambda>p_row t_row. map2 (\<lambda>p (ts, t). p * (1 + 0.0423 * (ts - t)))
                                          p_row (zip t_sfc t_row))
                    pco2_insitu t_insitu))"

section \<open>The decomposition driver\<close>

subsection \<open>Dataset operations\<close>

text \<open>\<^verbatim>\<open>ds.mean('time')\<close>: every variable averaged along time, cell by cell.\<close>

definition mean_time :: "dataset \<Rightarrow> rdataset" where
  "mean_time ds = map (\<lambda>(k, f). (k, map mean f)) (data_vars ds)"

text \<open>
  Modelled from the spec: \<^verbatim>\<open>nanmean\<close> of \<^verbatim>\<open>esm_analysis/stats.py\<close>, which is not among the
  sources. The spec lists it with the generic statistics helpers as the mean, and describes
  its two uses as the plain time mean and the mean of the sensitivities over a window. Over
  the reals there is no NaN to skip.
\<close>

definition nanmean :: "dataset \<Rightarrow> rdataset" where
  "nanmean ds = mean_time ds"

text \<open>
  Arithmetic between two Datasets keeps the variables that both have, in the order of the
  left operand; a reduced field is broadcast along the time axis.
\<close>

definition minus_reduced :: "dataset \<Rightarrow> rdataset \<Rightarrow> dataset" where
  "minus_reduced ds m =
     ds\<lparr>data_vars :=
          concat (map (\<lambda>(k, f). case map_of m k of
                                   None \<Rightarrow> []
                                 | Some c \<Rightarrow> [(k, map2 (\<lambda>xs v. map (\<lambda>x. x - v) xs) f c)])
                      (data_vars ds))\<rparr>"

definition reduced_times :: "rdataset \<Rightarrow> dataset \<Rightarrow> dataset" where
  "reduced_times m ds =
     ds\<lparr>data_vars :=
          concat (map (\<lambda>(k, c). case map_of (data_vars ds) k of
                                   None \<Rightarrow> []
                                 | Some f \<Rightarrow> [(k, map2 (\<lambda>v xs. map (\<lambda>x. v * x) xs) c f)])
                      m)\<rparr>"

definition rtimes :: "rdataset \<Rightarrow> rdataset \<Rightarrow> rdataset" where
  "rtimes a b =
     concat (map (\<lambda>(k, x). case map_of b k of
                              None \<Rightarrow> []
                            | Some y \<Rightarrow> [(k, map2 (\<lambda>u v. u * v) x y)])
                 a)"

text \<open>
  \<^verbatim>\<open>groupby('time.month')\<close>: the climatology of a calendar month is the mean over the time
  steps of that month, and every time step loses the climatology of its own month.
\<close>

definition month_clim :: "stamp list \<Rightarrow> series \<Rightarrow> nat \<Rightarrow> real" where
  "month_clim ts xs m = mean (map snd (filter (\<lambda>(s, x). snd s = m) (zip ts xs)))"

definition minus_clim :: "dataset \<Rightarrow> dataset" where
  "minus_clim ds =
     ds\<lparr>data_vars :=
          map (\<lambda>(k, f). (k, map (\<lambda>xs. map (\<lambda>(s, x). x - month_clim (time ds) xs (snd s))
                                           (zip (time ds) xs)) f))
              (data_vars ds)\<rparr>"

text \<open>
  \<^verbatim>\<open>sel(time=slice(str(y1), str(y2)))\<close>: label-based slicing by year strings keeps every time
  step from the start of year \<open>y1\<close> to the end of year \<open>y2\<close>, both years included. On
  the ascending time axis of a model output these are the time steps whose year lies in
  \<open>[y1, y2]\<close>.
\<close>

definition in_years :: "int \<Rightarrow> int \<Rightarrow> stamp \<Rightarrow> bool" where
  "in_years y1 y2 s = (y1 \<le> fst s \<and> fst s \<le> y2)"

definition sel_time :: "int \<Rightarrow> int \<Rightarrow> dataset \<Rightarrow> dataset" where
  "sel_time y1 y2 ds =
     \<lparr>time = filter (in_years y1 y2) (time ds),
      data_vars = map (\<lambda>(k, f). (k, map (\<lambda>xs. map snd (filter (\<lambda>(s, x). in_years y1 y2 s)
                                                                 (zip (time ds) xs))) f))
                      (data_vars ds)\<rparr>"

text \<open>The index is a one-dimensional DataArray over time: its time steps with their values.\<close>

type_synonym index = "(stamp \<times> real) list"

definition sel_index :: "int \<Rightarrow> int \<Rightarrow> index \<Rightarrow> index" where
  "sel_index y1 y2 ind = filter (\<lambda>(s, x). in_years y1 y2 s) ind"

text \<open>The keys of \<^verbatim>\<open>index.groupby('time.year').groups\<close>: the years of the index, ascending.\<close>

definition group_years :: "index \<Rightarrow> int list" where
  "group_years ind = sort (remdups (map (\<lambda>(s, x). fst s) ind))"

text \<open>
  \<^verbatim>\<open>xr.concat(res, dim='time').mean('time')\<close>: the per-window Datasets are stacked along a
  new axis and averaged along it, variable by variable and cell by cell. An empty list
  makes \<^verbatim>\<open>xr.concat\<close> raise.
\<close>

definition concat_mean :: "rdataset list \<Rightarrow> error + rdataset" where
  "concat_mean res =
     (case res of
        [] \<Rightarrow> Inl ConcatEmpty
      | r # _ \<Rightarrow>
          Inr (map (\<lambda>(k, x). (k, map mean (transpose (List.map_filter (\<lambda>w. map_of w k) res)))) r))"

subsection \<open>Collaborators that are not among the sources\<close>

text \<open>
  \<^verbatim>\<open>rm_poly\<close> and \<^verbatim>\<open>linear_regression\<close> of \<^verbatim>\<open>esm_analysis/stats.py\<close> are parameters of the
  model: \<open>rm_poly ds order\<close> is the detrended Dataset, and \<open>linreg ind ts f\<close> is the
  \<^verbatim>\<open>'slope'\<close> entry of the regression of the field \<open>f\<close> with time axis \<open>ts\<close> onto the
  index \<open>ind\<close>. The decorator \<^verbatim>\<open>check_xarray\<close> tests the type of the arguments, which the
  types of the model fix.
\<close>

type_synonym rm_poly_fn = "dataset \<Rightarrow> int option \<Rightarrow> dataset"
type_synonym linreg_fn = "index \<Rightarrow> stamp list \<Rightarrow> field \<Rightarrow> reduced"

subsection \<open>What a call does besides returning\<close>

text \<open>
  Python evaluates the statements of a function in their order, so a call leaves a trace:
  an entry for every statement that computes on the data, and one for every warning.
\<close>

datatype event = Computed string | Warned string

text \<open>\<^verbatim>\<open>not order\<close> holds for \<^verbatim>\<open>None\<close> and for \<^verbatim>\<open>0\<close>.\<close>

definition falsy :: "int option \<Rightarrow> bool" where
  "falsy order = (order = None \<or> order = Some 0)"

subsection \<open>\<^verbatim>\<open>spco2_decomposition\<close>\<close>

definition spco2_decomposition ::
  "rm_poly_fn \<Rightarrow> dataset \<Rightarrow> bool \<Rightarrow> int option \<Rightarrow> bool \<Rightarrow> event list \<times> (error + dataset)" where
  "spco2_decomposition rm_poly ds_terms detrend order deseasonalize =
     (case spco2_sensitivity ds_terms of
        Inl e \<Rightarrow> ([], Inl e)
      | Inr pco2_sensitivity \<Rightarrow>
          let ev1 = [Computed ''spco2_sensitivity''] in
          if detrend \<and> falsy order then (ev1, Inl OrderRequired)
          else
            let (ev2, ds_terms_anomaly) =
                  (if detrend then ([Computed ''rm_poly''], rm_poly ds_terms order)
                   else ([Warned ''Your data are not being detrended.'', Computed ''mean''],
                         minus_reduced ds_terms (mean_time ds_terms)));
                (ev3, ds_terms_anomaly) =
                  (if deseasonalize then ([Computed ''groupby''], minus_clim ds_terms_anomaly)
                   else ([Warned ''Your data are not being deseasonalized.''], ds_terms_anomaly));
                terms_in_pCO2_units = reduced_times (mean_time pco2_sensitivity) ds_terms_anomaly
            in (ev1 @ ev2 @ ev3 @ [Computed ''multiply''], Inr terms_in_pCO2_units))"

subsection \<open>\<^verbatim>\<open>spco2_decomposition_index\<close>\<close>

definition regression_against_index :: "linreg_fn \<Rightarrow> dataset \<Rightarrow> index \<Rightarrow> rdataset" where
  "regression_against_index linreg ds ind =
     map (\<lambda>(term, f). (term, linreg ind (time ds) f))
         (filter (\<lambda>(term, f). term \<noteq> ''spco2'') (data_vars ds))"

text \<open>The body of the loop over the years, for a window that passed the test.\<close>

definition window_terms :: "linreg_fn \<Rightarrow> dataset \<Rightarrow> dataset \<Rightarrow> index \<Rightarrow> int \<Rightarrow> int \<Rightarrow> rdataset" where
  "window_terms linreg ds_terms_anomaly pco2_sensitivity ind y1 y2 =
     (let ds = sel_time y1 y2 ds_terms_anomaly;
          ind' = sel_index y1 y2 ind;
          terms = regression_against_index linreg ds ind';
          sens = sel_time y1 y2 pco2_sensitivity
      in rtimes terms (nanmean sens))"

text \<open>The loop \<^verbatim>\<open>for y1 in tqdm(years)\<close>, with the list \<^verbatim>\<open>res\<close> it appends to.\<close>

fun window_loop ::
  "linreg_fn \<Rightarrow> dataset \<Rightarrow> dataset \<Rightarrow> index \<Rightarrow> int \<Rightarrow> int \<Rightarrow> int list \<Rightarrow> rdataset list \<Rightarrow> rdataset list" where
  "window_loop linreg anom sens ind sliding_window y_end [] res = res"
| "window_loop linreg anom sens ind sliding_window y_end (y1 # years) res =
     (let y2 = y1 + sliding_window in
      if y2 \<le> y_end
      then window_loop linreg anom sens ind sliding_window y_end years
             (res @ [window_terms linreg anom sens ind y1 y2])
      else window_loop linreg anom sens ind sliding_window y_end years res)"

text \<open>Lines 256 to 271: the regression, once or window by window.\<close>

definition regress_stage ::
  "linreg_fn \<Rightarrow> dataset \<Rightarrow> dataset \<Rightarrow> index \<Rightarrow> int option \<Rightarrow> event list \<times> (error + rdataset)" where
  "regress_stage linreg ds_terms_anomaly pco2_sensitivity ind sliding_window =
     (case sliding_window of
        None \<Rightarrow>
          (let terms = regression_against_index linreg ds_terms_anomaly ind
           in ([Computed ''linear_regression''], Inr (rtimes terms (nanmean pco2_sensitivity))))
      | Some n \<Rightarrow>
          (case rev ind of
             [] \<Rightarrow> ([], Inl IndexError)
           | (s_end, x_end) # _ \<Rightarrow>
               (let years = group_years ind;
                    y_end = fst s_end;
                    res = window_loop linreg ds_terms_anomaly pco2_sensitivity ind n y_end years []
                in (map (\<lambda>r. Computed ''linear_regression'') res, concat_mean res))))"

definition spco2_decomposition_index ::
  "rm_poly_fn \<Rightarrow> linreg_fn \<Rightarrow> dataset \<Rightarrow> index \<Rightarrow> bool \<Rightarrow> int option \<Rightarrow> bool \<Rightarrow> bool \<Rightarrow> int option
     \<Rightarrow> event list \<times> (error + rdataset option)" where
  "spco2_decomposition_index rm_poly linreg ds_terms ind detrend order deseasonalize plot sliding_window =
     (case spco2_sensitivity ds_terms of
        Inl e \<Rightarrow> ([], Inl e)
      | Inr pco2_sensitivity \<Rightarrow>
          let ev1 = [Computed ''spco2_sensitivity''] in
          if detrend \<and> falsy order then (ev1, Inl OrderRequired)
          else
            let (ev2, ds_terms_anomaly) =
                  (if detrend then ([Computed ''rm_poly''], rm_poly ds_terms order)
                   else ([Warned ''Your data are not being detrended.'', Computed ''nanmean''],
                         minus_reduced ds_terms (nanmean ds_terms)));
                (ev3, ds_terms_anomaly) =
                  (if deseasonalize then ([Computed ''groupby''], minus_clim ds_terms_anomaly)
                   else ([Warned ''Your data are not being deseasonalized.''], ds_terms_anomaly));
                (ev4, r) = regress_stage linreg ds_terms_anomaly pco2_sensitivity ind sliding_window
            in (ev1 @ ev2 @ ev3 @ ev4,
                case r of
                  Inl e \<Rightarrow> Inl e
                | Inr terms_in_pCO2_units \<Rightarrow>
                    if plot then Inr None else Inr (Some terms_in_pCO2_units)))"

section \<open>Example inputs\<close>

text \<open>
  A Dataset of one grid cell and two time steps, January 2000 and December 2001, with the
  five required variables,
  the same Dataset without \<^verbatim>\<open>tos\<close>, and the same Dataset with a sixth variable.
\<close>

definition ds_full :: dataset where
  "ds_full = \<lparr>time = [(2000, 1), (2001, 12)],
              data_vars = [(''spco2'', [[300, 310]]), (''tos'', [[10, 12]]), (''sos'', [[35, 35]]),
                           (''talkos'', [[2300, 2300]]), (''dissicos'', [[2000, 2000]])]\<rparr>"

definition ds_no_tos :: dataset where
  "ds_no_tos = \<lparr>time = [(2000, 1), (2001, 12)],
                data_vars = [(''spco2'', [[300, 310]]), (''sos'', [[35, 35]]),
                             (''talkos'', [[2300, 2300]]), (''dissicos'', [[2000, 2000]])]\<rparr>"

definition ds_extra :: dataset where
  "ds_extra = ds_full\<lparr>data_vars := data_vars ds_full @ [(''chlos'', [[1, 2]])]\<rparr>"

text \<open>
  A series of four float64 values and a permutation of it. Added up in their order, the
  first loses the \<open>4\<close> against \<open>10 ^ 17\<close>, whose unit in the last place is 16.
\<close>

definition series_lost :: "real list" where
  "series_lost = [0, 10 ^ 17, 4, - (10 ^ 17)]"

definition series_kept :: "real list" where
  "series_kept = [0, 10 ^ 17, - (10 ^ 17), 4]"

text \<open>Correctly rounded instances of \<^verbatim>\<open>np.log\<close> and \<^verbatim>\<open>np.exp\<close>.\<close>

definition log64 :: "real \<Rightarrow> real" where
  "log64 x = fl64 (ln x)"

definition exp64 :: "real \<Rightarrow> real" where
  "exp64 x = fl64 (exp x)"

text \<open>An index on the same time axis, and collaborators that compute nothing.\<close>

definition ind_two_years :: index where
  "ind_two_years = [((2000, 1), 1), ((2001, 12), 2)]"

definition rm_poly_stub :: rm_poly_fn where
  "rm_poly_stub ds order = ds"

definition linreg_stub :: linreg_fn where
  "linreg_stub ind ts f = map (\<lambda>xs. 0) f"

section \<open>Properties of \<^verbatim>\<open>spco2_sensitivity\<close>\<close>

lemma getitem_present:
  "k \<in> set (names ds) \<Longrightarrow> \<exists>f. getitem ds k = Inr f"
  by (cases "map_of (data_vars ds) k")
     (auto simp: getitem_def names_def map_of_eq_None_iff)

lemma check_variables_ok:
  "set requiredVars \<subseteq> set (names ds) \<Longrightarrow> check_variables ds = Inr ()"
  by (auto simp: check_variables_def list_all_iff)

lemma check_variables_missing:
  "\<not> set requiredVars \<subseteq> set (names ds) \<Longrightarrow>
   check_variables ds = Inl (MissingVariables (filter (\<lambda>i. i \<notin> set (names ds)) requiredVars))"
  by (auto simp: check_variables_def list_all_iff)

lemma sensitivity_ok:
  assumes "set requiredVars \<subseteq> set (names ds)"
  shows "\<exists>DIC ALK SALT pCO2.
           getitem ds ''dissicos'' = Inr DIC \<and> getitem ds ''talkos'' = Inr ALK \<and>
           getitem ds ''sos'' = Inr SALT \<and> getitem ds ''spco2'' = Inr pCO2 \<and>
           spco2_sensitivity ds =
             Inr \<lparr>time = time ds,
                  data_vars = dict_times_array (sensitivity_dict DIC ALK SALT) pCO2\<rparr>"
proof -
  from assms have in_names: "''dissicos'' \<in> set (names ds)" "''talkos'' \<in> set (names ds)"
    "''sos'' \<in> set (names ds)" "''spco2'' \<in> set (names ds)"
    by (auto simp: requiredVars_def)
  from in_names(1) obtain DIC where d: "getitem ds ''dissicos'' = Inr DIC"
    using getitem_present by blast
  from in_names(2) obtain ALK where a: "getitem ds ''talkos'' = Inr ALK"
    using getitem_present by blast
  from in_names(3) obtain SALT where s: "getitem ds ''sos'' = Inr SALT"
    using getitem_present by blast
  from in_names(4) obtain pCO2 where p: "getitem ds ''spco2'' = Inr pCO2"
    using getitem_present by blast
  show ?thesis
    using d a s p check_variables_ok [OF assms] by (simp add: spco2_sensitivity_def)
qed

lemma sensitivity_missing:
  "\<not> set requiredVars \<subseteq> set (names ds) \<Longrightarrow>
   spco2_sensitivity ds =
     Inl (MissingVariables (filter (\<lambda>i. i \<notin> set (names ds)) requiredVars))"
  by (simp add: spco2_sensitivity_def check_variables_missing)

text \<open>
  Claim C1. A Dataset that lacks at least one of the five required variables makes
  \<^verbatim>\<open>spco2_sensitivity\<close> raise the missing-variables error, and the list the error carries
  holds exactly the required variables that the Dataset lacks (each once, in the order of
  \<^verbatim>\<open>requiredVars\<close>); in particular each single omission is reported as that one name.
  A Dataset that has all five raises no error.
\<close>

theorem C1_missing_variables_reported:
  "(\<not> set requiredVars \<subseteq> set (names ds) \<longrightarrow>
      (\<exists>ms. spco2_sensitivity ds = Inl (MissingVariables ms) \<and> ms \<noteq> [] \<and> distinct ms \<and>
            set ms = set requiredVars - set (names ds))) \<and>
   (\<forall>v \<in> set requiredVars. set (names ds) \<inter> set requiredVars = set requiredVars - {v} \<longrightarrow>
      spco2_sensitivity ds = Inl (MissingVariables [v])) \<and>
   (set requiredVars \<subseteq> set (names ds) \<longrightarrow> (\<exists>r. spco2_sensitivity ds = Inr r))"
proof (intro conjI impI ballI)
  assume miss: "\<not> set requiredVars \<subseteq> set (names ds)"
  let ?ms = "filter (\<lambda>i. i \<notin> set (names ds)) requiredVars"
  have "spco2_sensitivity ds = Inl (MissingVariables ?ms)"
    using miss by (rule sensitivity_missing)
  moreover have "set ?ms = set requiredVars - set (names ds)" by auto
  moreover have "?ms \<noteq> []" using miss by (auto simp: filter_empty_conv)
  moreover have "distinct ?ms" by (simp add: requiredVars_def)
  ultimately show "\<exists>ms. spco2_sensitivity ds = Inl (MissingVariables ms) \<and> ms \<noteq> [] \<and>
      distinct ms \<and> set ms = set requiredVars - set (names ds)"
    by blast
next
  fix v
  assume v: "v \<in> set requiredVars"
    and one: "set (names ds) \<inter> set requiredVars = set requiredVars - {v}"
  from v one have miss: "\<not> set requiredVars \<subseteq> set (names ds)" by blast
  have "filter (\<lambda>i. i \<notin> set (names ds)) requiredVars = filter (\<lambda>i. i = v) requiredVars"
    using one by (intro filter_cong) auto
  also have "\<dots> = [v]" using v by (auto simp: requiredVars_def)
  finally show "spco2_sensitivity ds = Inl (MissingVariables [v])"
    using sensitivity_missing [OF miss] by simp
next
  assume "set requiredVars \<subseteq> set (names ds)"
  then show "\<exists>r. spco2_sensitivity ds = Inr r"
    using sensitivity_ok by blast
qed

theorem C1_missing_variables_reported_witness:
  "\<not> set requiredVars \<subseteq> set (names ds_no_tos) \<and>
   spco2_sensitivity ds_no_tos = Inl (MissingVariables [''tos'']) \<and>
   set requiredVars \<subseteq> set (names ds_full) \<and>
   (\<exists>r. spco2_sensitivity ds_full = Inr r)"
proof -
  have a: "''tos'' \<in> set requiredVars"
    by (simp add: requiredVars_def)
  have b: "set (names ds_no_tos) \<inter> set requiredVars = set requiredVars - {''tos''}"
    by (auto simp: requiredVars_def names_def ds_no_tos_def)
  have c: "set requiredVars \<subseteq> set (names ds_full)"
    by (simp add: requiredVars_def names_def ds_full_def)
  have d: "\<not> set requiredVars \<subseteq> set (names ds_no_tos)"
    by (simp add: requiredVars_def names_def ds_no_tos_def)
  from C1_missing_variables_reported [of ds_no_tos] a b
  have "spco2_sensitivity ds_no_tos = Inl (MissingVariables [''tos''])" by blast
  moreover from C1_missing_variables_reported [of ds_full] c
  have "\<exists>r. spco2_sensitivity ds_full = Inr r" by blast
  ultimately show ?thesis using c d by blast
qed

section \<open>Shapes and pointwise values\<close>

lemma shape_length: "shape a = shape b \<Longrightarrow> length a = length b"
  unfolding shape_def by (rule map_eq_imp_length_eq)

lemma shape_nth: "shape a = shape b \<Longrightarrow> c < length a \<Longrightarrow> length (a ! c) = length (b ! c)"
  unfolding shape_def by (metis length_map nth_map)

lemma shape_fmap: "shape (fmap g a) = shape a"
  by (simp add: shape_def fmap_def)

lemma shape_fbin: "shape a = shape b \<Longrightarrow> shape (fbin g a b) = shape a"
proof -
  assume s: "shape a = shape b"
  then have l: "length a = length b" by (rule shape_length)
  show ?thesis
    unfolding shape_def fbin_def
  proof (rule nth_equalityI)
    show "length (map length (map2 (map2 g) a b)) = length (map length a)"
      using l by simp
  next
    fix i assume "i < length (map length (map2 (map2 g) a b))"
    then have i: "i < length a" "i < length b" using l by simp_all
    then have "length (a ! i) = length (b ! i)" using s shape_nth by blast
    then show "map length (map2 (map2 g) a b) ! i = map length a ! i"
      using i by simp
  qed
qed

lemma fmap_nth: "c < length a \<Longrightarrow> t < length (a ! c) \<Longrightarrow> fmap g a ! c ! t = g (a ! c ! t)"
  by (simp add: fmap_def)

lemma fbin_nth:
  "shape a = shape b \<Longrightarrow> c < length a \<Longrightarrow> t < length (a ! c) \<Longrightarrow>
   fbin g a b ! c ! t = g (a ! c ! t) (b ! c ! t)"
  using shape_length [of a b] shape_nth [of a b c] by (simp add: fbin_def)

lemma fmap_nth2:
  "shape a = shape r \<Longrightarrow> c < length r \<Longrightarrow> t < length (r ! c) \<Longrightarrow>
   fmap g a ! c ! t = g (a ! c ! t)"
  using shape_length [of a r] shape_nth [of a r c] by (simp add: fmap_def)

lemma fbin_nth2:
  "shape a = shape r \<Longrightarrow> shape b = shape r \<Longrightarrow> c < length r \<Longrightarrow> t < length (r ! c) \<Longrightarrow>
   fbin g a b ! c ! t = g (a ! c ! t) (b ! c ! t)"
  using shape_length [of a r] shape_nth [of a r c] shape_length [of b r] shape_nth [of b r c]
  by (simp add: fbin_def)

lemma bfA_nth:
  assumes "shape ALK = shape DIC" "c < length ALK" "t < length (ALK ! c)"
  shows "buffer_factor_ALK ALK DIC ! c ! t =
         - ((ALK ! c ! t) ^ 2) / ((2 * DIC ! c ! t - ALK ! c ! t) * (ALK ! c ! t - DIC ! c ! t))"
    and "shape (buffer_factor_ALK ALK DIC) = shape ALK"
proof -
  have c': "c < length DIC" "t < length (DIC ! c)"
    using assms shape_length shape_nth by metis+
  have s1: "shape (fmap (\<lambda>x. 2 * x) DIC) = shape ALK" using assms(1) by (simp add: shape_fmap)
  have s2: "shape (fbin (\<lambda>x y. x - y) (fmap (\<lambda>x. 2 * x) DIC) ALK) = shape ALK"
    using s1 by (metis shape_fbin)
  have s3: "shape (fbin (\<lambda>x y. x - y) ALK DIC) = shape ALK"
    using assms(1) by (simp add: shape_fbin)
  have s4: "shape (fbin (\<lambda>x y. x * y) (fbin (\<lambda>x y. x - y) (fmap (\<lambda>x. 2 * x) DIC) ALK)
                            (fbin (\<lambda>x y. x - y) ALK DIC)) = shape ALK"
    using s2 s3 by (metis shape_fbin)
  show "shape (buffer_factor_ALK ALK DIC) = shape ALK"
    unfolding buffer_factor_ALK_def using s4 by (metis shape_fbin shape_fmap)
  show "buffer_factor_ALK ALK DIC ! c ! t =
         - ((ALK ! c ! t) ^ 2) / ((2 * DIC ! c ! t - ALK ! c ! t) * (ALK ! c ! t - DIC ! c ! t))"
    unfolding buffer_factor_ALK_def
    using assms(2,3) s1 s2 s3 s4 assms(1) [symmetric]
    by (simp add: fbin_nth2 [where r = ALK] fmap_nth2 [where r = ALK] shape_fmap)
qed

lemma bfD_nth:
  assumes "shape ALK = shape DIC" "c < length ALK" "t < length (ALK ! c)"
  shows "buffer_factor_DIC ALK DIC ! c ! t =
         (3 * ALK ! c ! t * DIC ! c ! t - 2 * (DIC ! c ! t) ^ 2) /
         ((2 * DIC ! c ! t - ALK ! c ! t) * (ALK ! c ! t - DIC ! c ! t))"
    and "shape (buffer_factor_DIC ALK DIC) = shape ALK"
proof -
  have c': "c < length DIC" "t < length (DIC ! c)"
    using assms shape_length shape_nth by metis+
  have s1: "shape (fmap (\<lambda>x. 2 * x) DIC) = shape ALK" using assms(1) by (simp add: shape_fmap)
  have s2: "shape (fbin (\<lambda>x y. x - y) (fmap (\<lambda>x. 2 * x) DIC) ALK) = shape ALK"
    using s1 by (metis shape_fbin)
  have s3: "shape (fbin (\<lambda>x y. x - y) ALK DIC) = shape ALK"
    using assms(1) by (simp add: shape_fbin)
  have s4: "shape (fbin (\<lambda>x y. x * y) (fbin (\<lambda>x y. x - y) (fmap (\<lambda>x. 2 * x) DIC) ALK)
                            (fbin (\<lambda>x y. x - y) ALK DIC)) = shape ALK"
    using s2 s3 by (metis shape_fbin)
  have s5: "shape (fbin (\<lambda>x y. x * y) (fmap (\<lambda>x. 3 * x) ALK) DIC) = shape ALK"
    using assms(1) by (metis shape_fbin shape_fmap)
  have s6: "shape (fmap (\<lambda>x. 2 * x ^ 2) DIC) = shape ALK"
    using assms(1) by (simp add: shape_fmap)
  have s7: "shape (fbin (\<lambda>x y. x - y) (fbin (\<lambda>x y. x * y) (fmap (\<lambda>x. 3 * x) ALK) DIC)
                            (fmap (\<lambda>x. 2 * x ^ 2) DIC)) = shape ALK"
    using s5 s6 by (metis shape_fbin)
  show "shape (buffer_factor_DIC ALK DIC) = shape ALK"
    unfolding buffer_factor_DIC_def using s4 s7 by (metis shape_fbin)
  show "buffer_factor_DIC ALK DIC ! c ! t =
         (3 * ALK ! c ! t * DIC ! c ! t - 2 * (DIC ! c ! t) ^ 2) /
         ((2 * DIC ! c ! t - ALK ! c ! t) * (ALK ! c ! t - DIC ! c ! t))"
    unfolding buffer_factor_DIC_def
    using assms(2,3) s1 s2 s3 s4 s5 s6 s7 assms(1) [symmetric]
    by (simp add: fbin_nth2 [where r = ALK] fmap_nth2 [where r = ALK] shape_fmap)
qed

lemma times_scalar_nth:
  "c < length p \<Longrightarrow> t < length (p ! c) \<Longrightarrow> times_array (Scalar k) p ! c ! t = k * p ! c ! t"
  by (simp add: times_array_def fmap_def)

lemma times_array_nth:
  "shape a = shape p \<Longrightarrow> c < length p \<Longrightarrow> t < length (p ! c) \<Longrightarrow>
   times_array (Array a) p ! c ! t = a ! c ! t * p ! c ! t"
  using fbin_nth2 [of a p p c t] by (simp add: times_array_def)

lemma shape_times_array:
  "(case v of Scalar k \<Rightarrow> True | Array a \<Rightarrow> shape a = shape p) \<Longrightarrow> shape (times_array v p) = shape p"
  by (cases v) (simp_all add: times_array_def shape_fmap shape_fbin)

text \<open>
  Claim C9. For a Dataset with the five required variables on one grid,
  \<^verbatim>\<open>spco2_sensitivity\<close> returns a Dataset of exactly the four variables \<^verbatim>\<open>tos\<close>, \<^verbatim>\<open>sos\<close>,
  \<^verbatim>\<open>talkos\<close> and \<^verbatim>\<open>dissicos\<close>, each of the shape of the pCO2 field, and at every grid cell
  and time step they are \<open>0.0423\<close>, \<open>1 / Salinity\<close>, \<open>buffer_factor_ALK / ALK\<close> and
  \<open>buffer_factor_DIC / DIC\<close> times pCO2, with the two buffer factors of the claim.
\<close>

theorem C9_sensitivity_formulas:
  assumes vars: "set requiredVars \<subseteq> set (names ds)"
    and get: "getitem ds ''dissicos'' = Inr DIC" "getitem ds ''talkos'' = Inr ALK"
      "getitem ds ''sos'' = Inr SALT" "getitem ds ''spco2'' = Inr pCO2"
    and shapes: "shape DIC = shape pCO2" "shape ALK = shape pCO2" "shape SALT = shape pCO2"
    and c: "c < length pCO2" and t: "t < length (pCO2 ! c)"
  shows "\<exists>r tos sos talkos dissicos.
           spco2_sensitivity ds = Inr r \<and>
           names r = [''tos'', ''sos'', ''talkos'', ''dissicos''] \<and>
           getitem r ''tos'' = Inr tos \<and> getitem r ''sos'' = Inr sos \<and>
           getitem r ''talkos'' = Inr talkos \<and> getitem r ''dissicos'' = Inr dissicos \<and>
           shape tos = shape pCO2 \<and> shape sos = shape pCO2 \<and>
           shape talkos = shape pCO2 \<and> shape dissicos = shape pCO2 \<and>
           tos ! c ! t = 0.0423 * pCO2 ! c ! t \<and>
           sos ! c ! t = (1 / SALT ! c ! t) * pCO2 ! c ! t \<and>
           talkos ! c ! t =
             ((- ((ALK ! c ! t) ^ 2) /
                 ((2 * DIC ! c ! t - ALK ! c ! t) * (ALK ! c ! t - DIC ! c ! t))) / ALK ! c ! t)
             * pCO2 ! c ! t \<and>
           dissicos ! c ! t =
             (((3 * ALK ! c ! t * DIC ! c ! t - 2 * (DIC ! c ! t) ^ 2) /
                 ((2 * DIC ! c ! t - ALK ! c ! t) * (ALK ! c ! t - DIC ! c ! t))) / DIC ! c ! t)
             * pCO2 ! c ! t"
proof -
  let ?tos = "times_array (Scalar 0.0423) pCO2"
  let ?a_sos = "fmap (\<lambda>x. 1 / x) SALT"
  let ?a_alk = "fbin (\<lambda>x y. x * y) (fmap (\<lambda>x. 1 / x) ALK) (buffer_factor_ALK ALK DIC)"
  let ?a_dic = "fbin (\<lambda>x y. x * y) (fmap (\<lambda>x. 1 / x) DIC) (buffer_factor_DIC ALK DIC)"
  let ?r = "\<lparr>time = time ds, data_vars = dict_times_array (sensitivity_dict DIC ALK SALT) pCO2\<rparr>"
  have ad: "shape ALK = shape DIC" using shapes by simp
  have cA: "c < length ALK" "t < length (ALK ! c)"
    using shapes(2) c t shape_length shape_nth by metis+
  have r: "spco2_sensitivity ds = Inr ?r"
    using get check_variables_ok [OF vars] by (simp add: spco2_sensitivity_def)
  have nm: "names ?r = [''tos'', ''sos'', ''talkos'', ''dissicos'']"
    by (simp add: names_def dict_times_array_def sensitivity_dict_def)
  have g: "getitem ?r ''tos'' = Inr ?tos"
    "getitem ?r ''sos'' = Inr (times_array (Array ?a_sos) pCO2)"
    "getitem ?r ''talkos'' = Inr (times_array (Array ?a_alk) pCO2)"
    "getitem ?r ''dissicos'' = Inr (times_array (Array ?a_dic) pCO2)"
    by (simp_all add: getitem_def dict_times_array_def sensitivity_dict_def)
  have sA: "shape (buffer_factor_ALK ALK DIC) = shape pCO2"
    using bfA_nth(2) [OF ad cA] shapes(2) by simp
  have sD: "shape (buffer_factor_DIC ALK DIC) = shape pCO2"
    using bfD_nth(2) [OF ad cA] shapes(2) by simp
  have s_sos: "shape ?a_sos = shape pCO2" using shapes(3) by (simp add: shape_fmap)
  have s_alk: "shape ?a_alk = shape pCO2"
    using sA shapes(2) shape_fbin [of "fmap (\<lambda>x. 1 / x) ALK" "buffer_factor_ALK ALK DIC"]
    by (simp add: shape_fmap)
  have s_dic: "shape ?a_dic = shape pCO2"
    using sD shapes(1) shape_fbin [of "fmap (\<lambda>x. 1 / x) DIC" "buffer_factor_DIC ALK DIC"]
    by (simp add: shape_fmap)
  have sh: "shape ?tos = shape pCO2" "shape (times_array (Array ?a_sos) pCO2) = shape pCO2"
    "shape (times_array (Array ?a_alk) pCO2) = shape pCO2"
    "shape (times_array (Array ?a_dic) pCO2) = shape pCO2"
    using s_sos s_alk s_dic by (simp_all add: shape_times_array)
  have v_tos: "?tos ! c ! t = 0.0423 * pCO2 ! c ! t"
    using c t by (rule times_scalar_nth)
  have v_sos: "times_array (Array ?a_sos) pCO2 ! c ! t = (1 / SALT ! c ! t) * pCO2 ! c ! t"
    using times_array_nth [OF s_sos c t] fmap_nth2 [OF shapes(3) c t] by simp
  have "?a_alk ! c ! t = (1 / ALK ! c ! t) * buffer_factor_ALK ALK DIC ! c ! t"
    using fbin_nth2 [of "fmap (\<lambda>x. 1 / x) ALK" pCO2 "buffer_factor_ALK ALK DIC" c t]
      fmap_nth2 [OF shapes(2) c t] sA shapes(2) c t by (simp add: shape_fmap)
  then have v_alk: "times_array (Array ?a_alk) pCO2 ! c ! t =
      ((- ((ALK ! c ! t) ^ 2) /
          ((2 * DIC ! c ! t - ALK ! c ! t) * (ALK ! c ! t - DIC ! c ! t))) / ALK ! c ! t)
      * pCO2 ! c ! t"
    using times_array_nth [OF s_alk c t] bfA_nth(1) [OF ad cA] by simp
  have "?a_dic ! c ! t = (1 / DIC ! c ! t) * buffer_factor_DIC ALK DIC ! c ! t"
    using fbin_nth2 [of "fmap (\<lambda>x. 1 / x) DIC" pCO2 "buffer_factor_DIC ALK DIC" c t]
      fmap_nth2 [OF shapes(1) c t] sD shapes(1) c t by (simp add: shape_fmap)
  then have v_dic: "times_array (Array ?a_dic) pCO2 ! c ! t =
      (((3 * ALK ! c ! t * DIC ! c ! t - 2 * (DIC ! c ! t) ^ 2) /
          ((2 * DIC ! c ! t - ALK ! c ! t) * (ALK ! c ! t - DIC ! c ! t))) / DIC ! c ! t)
      * pCO2 ! c ! t"
    using times_array_nth [OF s_dic c t] bfD_nth(1) [OF ad cA] by simp
  show ?thesis
    using r nm g sh v_tos v_sos v_alk v_dic by blast
qed

theorem C9_sensitivity_formulas_witness:
  "set requiredVars \<subseteq> set (names ds_full) \<and>
   getitem ds_full ''dissicos'' = Inr [[2000, 2000]] \<and> getitem ds_full ''talkos'' = Inr [[2300, 2300]] \<and>
   getitem ds_full ''sos'' = Inr [[35, 35]] \<and> getitem ds_full ''spco2'' = Inr [[300, 310]] \<and>
   (\<exists>r tos sos talkos dissicos.
      spco2_sensitivity ds_full = Inr r \<and>
      names r = [''tos'', ''sos'', ''talkos'', ''dissicos''] \<and>
      getitem r ''tos'' = Inr tos \<and> getitem r ''sos'' = Inr sos \<and>
      getitem r ''talkos'' = Inr talkos \<and> getitem r ''dissicos'' = Inr dissicos \<and>
      tos ! 0 ! 1 = 0.0423 * 310 \<and> sos ! 0 ! 1 = (1 / 35) * 310 \<and>
      talkos ! 0 ! 1 = ((- (2300 ^ 2) / ((2 * 2000 - 2300) * (2300 - 2000))) / 2300) * 310 \<and>
      dissicos ! 0 ! 1 =
        (((3 * 2300 * 2000 - 2 * 2000 ^ 2) / ((2 * 2000 - 2300) * (2300 - 2000))) / 2000) * 310)"
proof -
  have vars: "set requiredVars \<subseteq> set (names ds_full)"
    by (simp add: requiredVars_def names_def ds_full_def)
  have get: "getitem ds_full ''dissicos'' = Inr [[2000, 2000]]"
    "getitem ds_full ''talkos'' = Inr [[2300, 2300]]"
    "getitem ds_full ''sos'' = Inr [[35, 35]]" "getitem ds_full ''spco2'' = Inr [[300, 310]]"
    by (simp_all add: getitem_def ds_full_def)
  have shapes: "shape [[2000, 2000 :: real]] = shape [[300, 310 :: real]]"
    "shape [[2300, 2300 :: real]] = shape [[300, 310 :: real]]"
    "shape [[35, 35 :: real]] = shape [[300, 310 :: real]]"
    by (simp_all add: shape_def)
  have c: "0 < length [[300, 310 :: real]]" and t: "1 < length ([[300, 310 :: real]] ! 0)"
    by simp_all
  from C9_sensitivity_formulas [OF vars get shapes c t] vars get
  show ?thesis by simp blast
qed

section \<open>Potential pCO2, solubility and Schmidt number\<close>

lemma potential_row:
  "length p0 \<le> length t0 \<Longrightarrow>
   map2 (\<lambda>p (ts, t). p * (1 + k * (ts - t))) p0 (zip t0 t0) = (p0 :: real list)"
proof (rule nth_equalityI)
  assume "length p0 \<le> length t0"
  then show "length (map2 (\<lambda>p (ts, t). p * (1 + k * (ts - t))) p0 (zip t0 t0)) = length p0"
    by simp
next
  fix i
  assume "i < length (map2 (\<lambda>p (ts, t). p * (1 + k * (ts - t))) p0 (zip t0 t0))"
  then show "map2 (\<lambda>p (ts, t). p * (1 + k * (ts - t))) p0 (zip t0 t0) ! i = p0 ! i"
    by simp
qed

text \<open>
  Claim C7. For temperature and pCO2 fields on one grid with a non-empty depth axis,
  \<^verbatim>\<open>potential_pco2\<close> returns, at depth index 0, the pCO2 of depth index 0 unchanged.
\<close>

theorem C7_potential_pco2_surface:
  assumes "t_insitu \<noteq> []" and "pco2_insitu \<noteq> []"
    and "length (pco2_insitu ! 0) = length (t_insitu ! 0)"
  shows "\<exists>r. potential_pco2 t_insitu pco2_insitu = Inr r \<and> r ! 0 = pco2_insitu ! 0"
proof -
  from assms(1) obtain t0 ts where T: "t_insitu = t0 # ts" by (cases t_insitu) auto
  from assms(2) obtain p0 ps where P: "pco2_insitu = p0 # ps" by (cases pco2_insitu) auto
  from assms(3) T P have "length p0 \<le> length t0" by simp
  then have "map2 (\<lambda>p (ts, t). p * (1 + 0.0423 * (ts - t))) p0 (zip t0 t0) = p0"
    by (rule potential_row)
  then show ?thesis
    unfolding T P potential_pco2_def by simp
qed

theorem C7_potential_pco2_surface_witness:
  "[[10, 11], [4, 5 :: real]] \<noteq> [] \<and> [[300, 310], [400, 410 :: real]] \<noteq> [] \<and>
   length ([[300, 310], [400, 410 :: real]] ! 0) = length ([[10, 11], [4, 5 :: real]] ! 0) \<and>
   (\<exists>r. potential_pco2 [[10, 11], [4, 5]] [[300, 310], [400, 410]] = Inr r \<and> r ! 0 = [300, 310])"
  using C7_potential_pco2_surface [of "[[10, 11], [4, 5]]" "[[300, 310], [400, 410]]"]
  by simp

subsection \<open>Rounding in \<^verbatim>\<open>np.mean\<close>\<close>

lemma pow2_powr: "pow2 k = 2 powr of_int k"
  by (simp add: pow2_def powr_int)

lemma fl64_eval:
  assumes "x \<noteq> 0" and "pow2 k \<le> \<bar>x\<bar>" and "\<bar>x\<bar> < pow2 (k + 1)"
  shows "fl64 x = of_int (round_even (x / pow2 (k - 52))) * pow2 (k - 52)"
proof -
  have "\<lfloor>log 2 \<bar>x\<bar>\<rfloor> = k"
    using assms by (simp add: floor_log_eq_powr_iff pow2_powr)
  then show ?thesis using assms(1) by (simp add: fl64_def Let_def)
qed

lemma fl64_zero: "fl64 0 = 0"
  by (simp add: fl64_def)

lemma fl64_big: "fl64 100000000000000000 = 100000000000000000"
  using fl64_eval [of "100000000000000000" 56] by (simp add: round_even_def pow2_def)

lemma fl64_big4: "fl64 100000000000000004 = 100000000000000000"
  using fl64_eval [of "100000000000000004" 56] by (simp add: round_even_def pow2_def)

lemma fl64_4: "fl64 4 = 4"
  using fl64_eval [of 4 2] by (simp add: round_even_def pow2_def)

lemma fl64_1: "fl64 1 = 1"
  using fl64_eval [of 1 0] by (simp add: round_even_def pow2_def)

lemma fl64_c0: "fl64 (20731 / 10) = 4558795111084851 / 2199023255552"
  using fl64_eval [of "20731 / 10" "11"] by (simp add: round_even_def pow2_def)

lemma fl64_c0_fix: "fl64 (4558795111084851 / 2199023255552) = 4558795111084851 / 2199023255552"
  using fl64_eval [of "4558795111084851 / 2199023255552" "11"] by (simp add: round_even_def pow2_def)

lemma fl64_c1: "fl64 (6281 / 50) = 1104965205449769 / 8796093022208"
  using fl64_eval [of "6281 / 50" "6"] by (simp add: round_even_def pow2_def)

lemma fl64_c1_fix: "fl64 (1104965205449769 / 8796093022208) = 1104965205449769 / 8796093022208"
  using fl64_eval [of "1104965205449769 / 8796093022208" "6"] by (simp add: round_even_def pow2_def)

lemma fl64_c2: "fl64 (9069 / 2500) = 4084314502062303 / 1125899906842624"
  using fl64_eval [of "9069 / 2500" "1"] by (simp add: round_even_def pow2_def)

lemma fl64_c2_fix: "fl64 (4084314502062303 / 1125899906842624) = 4084314502062303 / 1125899906842624"
  using fl64_eval [of "4084314502062303 / 1125899906842624" "1"] by (simp add: round_even_def pow2_def)

lemma fl64_c3: "fl64 (43219 / 1000000) = 6228514313450415 / 144115188075855872"
  using fl64_eval [of "43219 / 1000000" "-5"] by (simp add: round_even_def pow2_def)

lemma fl64_c3_fix: "fl64 (6228514313450415 / 144115188075855872) = 6228514313450415 / 144115188075855872"
  using fl64_eval [of "6228514313450415 / 144115188075855872" "-5"] by (simp add: round_even_def pow2_def)

lemma fl64_d1: "fl64 (17130215238889635 / 8796093022208) = 4282553809722409 / 2199023255552"
  using fl64_eval [of "17130215238889635 / 8796093022208" "10"] by (simp add: round_even_def pow2_def)

lemma fl64_d2: "fl64 (2196751865079935711 / 1125899906842624) = 8581061972968499 / 4398046511104"
  using fl64_eval [of "2196751865079935711 / 1125899906842624" "10"] by (simp add: round_even_def pow2_def)

lemma fl64_d3: "fl64 (281178010215918324817 / 144115188075855872) = 536304493362271 / 274877906944"
  using fl64_eval [of "281178010215918324817 / 144115188075855872" "10"] by (simp add: round_even_def pow2_def)

lemma mean_lost: "np_mean series_lost = 0"
  by (simp add: np_mean_def np_sum_def series_lost_def add64_def div64_def fl64_zero fl64_big
      fl64_big4)

lemma mean_kept: "np_mean series_kept = 1"
  by (simp add: np_mean_def np_sum_def series_kept_def add64_def div64_def fl64_zero fl64_big
      fl64_4 fl64_1)

lemma schmidt_lost: "schmidt series_lost = 4558795111084851 / 2199023255552"
  by (simp add: schmidt_def mean_lost add64_def sub64_def mul64_def pow64_def fl64_zero
      fl64_c0 fl64_c0_fix)

lemma schmidt_kept: "schmidt series_kept = 536304493362271 / 274877906944"
  by (simp add: schmidt_def mean_kept add64_def sub64_def mul64_def pow64_def fl64_1
      fl64_c0 fl64_c1 fl64_c2 fl64_c3 fl64_c1_fix fl64_c2_fix fl64_c3_fix fl64_d1 fl64_d2 fl64_d3)

lemma fl64_big_neg: "fl64 (- 100000000000000000) = - 100000000000000000"
  using fl64_eval [of "- 100000000000000000" 56] by (simp add: round_even_def pow2_def)

lemma fl64_2: "fl64 2 = 2"
  using fl64_eval [of 2 1] by (simp add: round_even_def pow2_def)

lemma series_float64: "map fl64 series_lost = series_lost" "map fl64 series_kept = series_kept"
  by (simp_all add: series_lost_def series_kept_def fl64_zero fl64_big fl64_big_neg fl64_4)

lemma mean_mset: "mset xs = mset ys \<Longrightarrow> mean xs = mean ys"
proof -
  assume h: "mset xs = mset ys"
  then have "sum_list xs = sum_list ys"
    by (metis sum_mset_sum_list)
  moreover from h have "length xs = length ys"
    by (rule mset_eq_length)
  ultimately show ?thesis by (simp add: mean_def)
qed

text \<open>
  Claim C8 as stated fails: \<open>series_kept\<close> is a permutation of \<open>series_lost\<close>, both
  hold float64 values, their means are 1 and 0, and \<^verbatim>\<open>schmidt\<close> returns different results.
\<close>

theorem C8_counterexample:
  "map fl64 series_lost = series_lost \<and> mset series_kept = mset series_lost \<and>
   np_mean series_lost = 0 \<and> np_mean series_kept = 1 \<and>
   schmidt series_kept \<noteq> schmidt series_lost"
proof -
  have "mset series_kept = mset series_lost"
    by (simp add: series_kept_def series_lost_def)
  moreover have "schmidt series_kept \<noteq> schmidt series_lost"
    unfolding schmidt_kept schmidt_lost by simp
  ultimately show ?thesis
    using series_float64(1) mean_lost mean_kept by blast
qed

text \<open>
  Claim C8, as the code has it. \<^verbatim>\<open>co2_sol\<close> and \<^verbatim>\<open>schmidt\<close> depend on their input series
  only through \<^verbatim>\<open>np.mean\<close>: a permutation of the series, or any other change of them, that
  leaves the float64 means unchanged leaves both results unchanged. A permutation always
  leaves the exact mean unchanged; what it can change is the rounding of the sum.
\<close>

theorem C8_results_depend_on_means:
  "(np_mean t' = np_mean t \<and> np_mean s' = np_mean s \<longrightarrow>
      co2_sol np_log np_exp t' s' = co2_sol np_log np_exp t s \<and> schmidt t' = schmidt t) \<and>
   (mset t' = mset t \<longrightarrow> mean t' = mean t)"
proof (intro conjI impI)
  assume "np_mean t' = np_mean t \<and> np_mean s' = np_mean s"
  then have a: "np_mean t' = np_mean t" and b: "np_mean s' = np_mean s"
    by blast+
  show "co2_sol np_log np_exp t' s' = co2_sol np_log np_exp t s"
    unfolding co2_sol_def a b by (rule refl)
  show "schmidt t' = schmidt t"
    unfolding schmidt_def a by (rule refl)
next
  assume "mset t' = mset t"
  then show "mean t' = mean t" by (rule mean_mset)
qed

theorem C8_results_depend_on_means_witness:
  "mset [4, 0 :: real] = mset [0, 4] \<and> np_mean [4, 0] = np_mean [0, 4] \<and>
   co2_sol log64 exp64 [4, 0] [4, 0] = co2_sol log64 exp64 [0, 4] [0, 4] \<and>
   schmidt [4, 0] = schmidt [0, 4] \<and> mean [4, 0] = mean [0, 4]"
proof -
  have m: "np_mean [4, 0] = np_mean [0, 4]"
    by (simp add: np_mean_def np_sum_def add64_def div64_def fl64_zero fl64_4 fl64_2)
  have p: "mset [4, 0 :: real] = mset [0, 4]" by simp
  from C8_results_depend_on_means [of "[4, 0]" "[0, 4]" "[4, 0]" "[0, 4]" log64 exp64] m p
  show ?thesis by blast
qed

section \<open>The checks of the decomposition driver\<close>

lemma decomposition_missing:
  "\<not> set requiredVars \<subseteq> set (names ds) \<Longrightarrow>
   spco2_decomposition rm_poly ds detrend order deseasonalize =
     ([], Inl (MissingVariables (filter (\<lambda>i. i \<notin> set (names ds)) requiredVars)))"
  by (simp add: spco2_decomposition_def sensitivity_missing)

lemma decomposition_index_missing:
  "\<not> set requiredVars \<subseteq> set (names ds) \<Longrightarrow>
   spco2_decomposition_index rm_poly linreg ds ind detrend order deseasonalize plot sliding_window =
     ([], Inl (MissingVariables (filter (\<lambda>i. i \<notin> set (names ds)) requiredVars)))"
  by (simp add: spco2_decomposition_index_def sensitivity_missing)

lemma decomposition_order:
  "spco2_sensitivity ds = Inr sens \<Longrightarrow> falsy order \<Longrightarrow>
   spco2_decomposition rm_poly ds True order deseasonalize =
     ([Computed ''spco2_sensitivity''], Inl OrderRequired)"
  by (simp add: spco2_decomposition_def)

lemma decomposition_index_order:
  "spco2_sensitivity ds = Inr sens \<Longrightarrow> falsy order \<Longrightarrow>
   spco2_decomposition_index rm_poly linreg ds ind True order deseasonalize plot sliding_window =
     ([Computed ''spco2_sensitivity''], Inl OrderRequired)"
  by (simp add: spco2_decomposition_index_def)

lemma decomposition_returns:
  "spco2_sensitivity ds = Inr sens \<Longrightarrow> \<not> (detrend \<and> falsy order) \<Longrightarrow>
   \<exists>evs r. spco2_decomposition rm_poly ds detrend order deseasonalize = (evs, Inr r)"
  by (auto simp: spco2_decomposition_def Let_def split: prod.splits)

lemma regress_stage_errors:
  "regress_stage linreg anom sens ind sliding_window = (evs, Inl e) \<Longrightarrow>
   e = IndexError \<or> e = ConcatEmpty"
  by (auto simp: regress_stage_def concat_mean_def Let_def split: option.splits list.splits prod.splits)

lemma decomposition_index_no_missing:
  assumes "spco2_sensitivity ds = Inr sens"
  shows "snd (spco2_decomposition_index rm_poly linreg ds ind detrend order deseasonalize plot sliding_window)
           \<noteq> Inl (MissingVariables ms)"
proof (cases "detrend \<and> falsy order")
  case True
  then show ?thesis using assms by (simp add: spco2_decomposition_index_def)
next
  case False
  then show ?thesis
    using assms
    by (auto simp: spco2_decomposition_index_def Let_def split: prod.splits sum.splits
        dest!: regress_stage_errors)
qed

lemma names_examples:
  "set requiredVars \<subseteq> set (names ds_full)"
  "set requiredVars \<subseteq> set (names ds_extra)"
  "\<not> set requiredVars \<subseteq> set (names ds_no_tos)"
  "filter (\<lambda>i. i \<notin> set (names ds_no_tos)) requiredVars = [''tos'']"
  by (simp_all add: requiredVars_def names_def ds_full_def ds_extra_def ds_no_tos_def)

text \<open>
  Claim C2 as stated fails: on a complete Dataset the call with \<^verbatim>\<open>detrend=True\<close> and
  \<^verbatim>\<open>order=None\<close> has computed the sensitivities when it raises.
\<close>

theorem C2_counterexample:
  "spco2_decomposition rm_poly_stub ds_full True None False =
     ([Computed ''spco2_sensitivity''], Inl OrderRequired)"
proof -
  obtain sens where "spco2_sensitivity ds_full = Inr sens"
    using sensitivity_ok [OF names_examples(1)] by blast
  then show ?thesis by (rule decomposition_order) (simp add: falsy_def)
qed

text \<open>
  Claim C2, as the code has it. With \<^verbatim>\<open>detrend=True\<close> and a falsy \<^verbatim>\<open>order\<close>,
  \<^verbatim>\<open>spco2_decomposition\<close> raises for every Dataset: the missing-variables error, before any
  computation, when a required variable is absent; otherwise the error about the order,
  raised once the sensitivities have been computed and before any detrending, mean removal,
  deseasonalising or multiplication.
\<close>

theorem C2_order_error_after_sensitivity:
  assumes "falsy order"
  shows "(\<not> set requiredVars \<subseteq> set (names ds) \<longrightarrow>
            spco2_decomposition rm_poly ds True order deseasonalize =
              ([], Inl (MissingVariables (filter (\<lambda>i. i \<notin> set (names ds)) requiredVars)))) \<and>
         (set requiredVars \<subseteq> set (names ds) \<longrightarrow>
            spco2_decomposition rm_poly ds True order deseasonalize =
              ([Computed ''spco2_sensitivity''], Inl OrderRequired))"
proof (intro conjI impI)
  assume "\<not> set requiredVars \<subseteq> set (names ds)"
  then show "spco2_decomposition rm_poly ds True order deseasonalize =
      ([], Inl (MissingVariables (filter (\<lambda>i. i \<notin> set (names ds)) requiredVars)))"
    by (rule decomposition_missing)
next
  assume "set requiredVars \<subseteq> set (names ds)"
  then obtain sens where "spco2_sensitivity ds = Inr sens"
    using sensitivity_ok by blast
  then show "spco2_decomposition rm_poly ds True order deseasonalize =
      ([Computed ''spco2_sensitivity''], Inl OrderRequired)"
    using assms by (rule decomposition_order)
qed

theorem C2_order_error_after_sensitivity_witness:
  "falsy (Some 0) \<and> \<not> set requiredVars \<subseteq> set (names ds_no_tos) \<and>
   spco2_decomposition rm_poly_stub ds_no_tos True (Some 0) True = ([], Inl (MissingVariables [''tos''])) \<and>
   falsy None \<and> set requiredVars \<subseteq> set (names ds_extra) \<and>
   spco2_decomposition rm_poly_stub ds_extra True None True =
     ([Computed ''spco2_sensitivity''], Inl OrderRequired)"
proof -
  have a: "falsy (Some 0)" and b: "falsy None" by (simp_all add: falsy_def)
  from C2_order_error_after_sensitivity [OF a, of ds_no_tos rm_poly_stub True]
    C2_order_error_after_sensitivity [OF b, of ds_extra rm_poly_stub True]
    a b names_examples
  show ?thesis by simp
qed

text \<open>
  Claim C3 as stated fails: a Dataset with a sixth variable is accepted and the call
  returns a result.
\<close>

theorem C3_counterexample:
  "set (names ds_extra) \<noteq> set requiredVars \<and>
   \<not> isl (snd (spco2_decomposition rm_poly_stub ds_extra True (Some 1) False))"
proof -
  have "''chlos'' \<in> set (names ds_extra)" "''chlos'' \<notin> set requiredVars"
    by (simp_all add: requiredVars_def names_def ds_extra_def)
  then have "set (names ds_extra) \<noteq> set requiredVars" by blast
  moreover obtain sens where "spco2_sensitivity ds_extra = Inr sens"
    using sensitivity_ok [OF names_examples(2)] by blast
  then obtain evs r where
    "spco2_decomposition rm_poly_stub ds_extra True (Some 1) False = (evs, Inr r)"
    using decomposition_returns [of ds_extra sens True "Some 1" rm_poly_stub False]
    by (auto simp: falsy_def)
  ultimately show ?thesis by simp
qed

text \<open>
  Claim C3, as the code has it. A Dataset passed to \<^verbatim>\<open>spco2_decomposition\<close> or
  \<^verbatim>\<open>spco2_decomposition_index\<close> must contain at least the five required variables: when one
  of them is absent the call fails with the missing-variables error before any computation,
  and when all five are present, whatever else the Dataset holds, no missing-variables error
  is raised.
\<close>

theorem C3_required_variables_checked_first:
  "(\<not> set requiredVars \<subseteq> set (names ds) \<longrightarrow>
      spco2_decomposition rm_poly ds detrend order deseasonalize =
        ([], Inl (MissingVariables (filter (\<lambda>i. i \<notin> set (names ds)) requiredVars))) \<and>
      spco2_decomposition_index rm_poly linreg ds ind detrend order deseasonalize plot sliding_window =
        ([], Inl (MissingVariables (filter (\<lambda>i. i \<notin> set (names ds)) requiredVars)))) \<and>
   (set requiredVars \<subseteq> set (names ds) \<longrightarrow>
      (\<forall>ms. snd (spco2_decomposition rm_poly ds detrend order deseasonalize)
              \<noteq> Inl (MissingVariables ms)) \<and>
      (\<forall>ms. snd (spco2_decomposition_index rm_poly linreg ds ind detrend order deseasonalize plot
                   sliding_window) \<noteq> Inl (MissingVariables ms)))"
proof (intro conjI impI allI)
  assume m: "\<not> set requiredVars \<subseteq> set (names ds)"
  show "spco2_decomposition rm_poly ds detrend order deseasonalize =
      ([], Inl (MissingVariables (filter (\<lambda>i. i \<notin> set (names ds)) requiredVars)))"
    using m by (rule decomposition_missing)
  show "spco2_decomposition_index rm_poly linreg ds ind detrend order deseasonalize plot sliding_window =
      ([], Inl (MissingVariables (filter (\<lambda>i. i \<notin> set (names ds)) requiredVars)))"
    using m by (rule decomposition_index_missing)
next
  fix ms
  assume "set requiredVars \<subseteq> set (names ds)"
  then obtain sens where s: "spco2_sensitivity ds = Inr sens"
    using sensitivity_ok by blast
  show "snd (spco2_decomposition rm_poly ds detrend order deseasonalize) \<noteq> Inl (MissingVariables ms)"
  proof (cases "detrend \<and> falsy order")
    case True
    then show ?thesis using decomposition_order [OF s, of order rm_poly deseasonalize] by auto
  next
    case False
    then show ?thesis using decomposition_returns [OF s, of detrend order rm_poly deseasonalize] by auto
  qed
next
  fix ms
  assume "set requiredVars \<subseteq> set (names ds)"
  then obtain sens where s: "spco2_sensitivity ds = Inr sens"
    using sensitivity_ok by blast
  then show "snd (spco2_decomposition_index rm_poly linreg ds ind detrend order deseasonalize plot
      sliding_window) \<noteq> Inl (MissingVariables ms)"
    by (rule decomposition_index_no_missing)
qed

theorem C3_required_variables_checked_first_witness:
  "\<not> set requiredVars \<subseteq> set (names ds_no_tos) \<and>
   spco2_decomposition rm_poly_stub ds_no_tos True (Some 1) False =
     ([], Inl (MissingVariables [''tos''])) \<and>
   spco2_decomposition_index rm_poly_stub linreg_stub ds_no_tos ind_two_years True (Some 1) False False
       (Some 10) = ([], Inl (MissingVariables [''tos''])) \<and>
   set requiredVars \<subseteq> set (names ds_extra) \<and>
   snd (spco2_decomposition rm_poly_stub ds_extra True (Some 1) False) \<noteq> Inl (MissingVariables []) \<and>
   snd (spco2_decomposition_index rm_poly_stub linreg_stub ds_extra ind_two_years True (Some 1) False
         False (Some 10)) \<noteq> Inl (MissingVariables [])"
  using C3_required_variables_checked_first [of ds_no_tos rm_poly_stub True "Some 1" False
      linreg_stub ind_two_years False "Some 10"]
    C3_required_variables_checked_first [of ds_extra rm_poly_stub True "Some 1" False
      linreg_stub ind_two_years False "Some 10"]
    names_examples
  by simp

section \<open>Anomalies without detrending\<close>

lemma map_of_means:
  "distinct (map fst xs) \<Longrightarrow> (k, f) \<in> set xs \<Longrightarrow>
   map_of (map (\<lambda>(k, f). (k, map mean f)) xs) k = Some (map mean f)"
  by (simp add: map_of_map)

lemma minus_mean_vars:
  assumes "distinct (map fst xs)"
  shows "concat (map (\<lambda>(k, f). case map_of (map (\<lambda>(k, f). (k, map mean f)) xs) k of
                                  None \<Rightarrow> []
                                | Some c \<Rightarrow> [(k, G f c)]) xs) =
         map (\<lambda>(k, f). (k, G f (map mean f))) xs"
proof -
  let ?F = "\<lambda>(k, f). case map_of (map (\<lambda>(k, f). (k, map mean f)) xs) k of
                         None \<Rightarrow> []
                       | Some c \<Rightarrow> [(k, G f c)]"
  let ?H = "\<lambda>kf. (fst kf, G (snd kf) (map mean (snd kf)))"
  have "map ?F xs = map (\<lambda>kf. [?H kf]) xs"
    by (rule map_cong) (auto simp: map_of_means [OF assms])
  then have "concat (map ?F xs) = concat (map (\<lambda>kf. [?H kf]) xs)"
    by (rule arg_cong)
  also have "\<dots> = map ?H xs"
    by (induction xs) simp_all
  also have "\<dots> = map (\<lambda>(k, f). (k, G f (map mean f))) xs"
    by (simp add: case_prod_beta)
  finally show ?thesis .
qed

lemma anomaly_vars:
  "distinct (names ds) \<Longrightarrow>
   data_vars (minus_reduced ds (mean_time ds)) =
     map (\<lambda>(k, f). (k, map2 (\<lambda>xs v. map (\<lambda>x. x - v) xs) f (map mean f))) (data_vars ds)"
  unfolding minus_reduced_def mean_time_def names_def
  by (simp add: minus_mean_vars)

lemma anomaly_field:
  "shape (map2 (\<lambda>xs v. map (\<lambda>x. x - v) xs) f (map mean f)) = shape f"
  "c < length f \<Longrightarrow> t < length (f ! c) \<Longrightarrow>
   map2 (\<lambda>xs v. map (\<lambda>x. x - v) xs) f (map mean f) ! c ! t = f ! c ! t - mean (f ! c)"
  by (simp_all add: shape_def map2_map_map [symmetric] zip_map2 comp_def case_prod_beta
      zip_same_conv_map)

lemma anomaly_getitem:
  assumes "distinct (names ds)" and "getitem ds k = Inr f"
  shows "getitem (minus_reduced ds (mean_time ds)) k =
         Inr (map2 (\<lambda>xs v. map (\<lambda>x. x - v) xs) f (map mean f))"
proof -
  from assms(2) have "map_of (data_vars ds) k = Some f"
    by (auto simp: getitem_def split: option.splits)
  then show ?thesis
    by (simp add: getitem_def anomaly_vars [OF assms(1)] map_of_map case_prod_beta
        map_of_map [of "\<lambda>f. map2 (\<lambda>xs v. map (\<lambda>x. x - v) xs) f (map mean f)", unfolded case_prod_beta])
qed

lemma decomposition_no_detrend:
  assumes "spco2_sensitivity ds = Inr sens"
  shows "\<exists>ev. spco2_decomposition rm_poly ds False order deseasonalize =
           (ev, Inr (reduced_times (mean_time sens)
                       (if deseasonalize then minus_clim (minus_reduced ds (mean_time ds))
                        else minus_reduced ds (mean_time ds)))) \<and>
           Warned ''Your data are not being detrended.'' \<in> set ev"
  using assms by (simp add: spco2_decomposition_def)

lemma decomposition_index_no_detrend:
  assumes "spco2_sensitivity ds = Inr sens"
  shows "\<exists>ev. spco2_decomposition_index rm_poly linreg ds ind False order deseasonalize plot
                sliding_window =
           (ev, case snd (regress_stage linreg
                            (if deseasonalize then minus_clim (minus_reduced ds (mean_time ds))
                             else minus_reduced ds (mean_time ds))
                            sens ind sliding_window) of
                  Inl e \<Rightarrow> Inl e
                | Inr r \<Rightarrow> if plot then Inr None else Inr (Some r)) \<and>
           Warned ''Your data are not being detrended.'' \<in> set ev"
  using assms
  by (simp add: spco2_decomposition_index_def nanmean_def case_prod_beta)

text \<open>
  Claim C4. With \<^verbatim>\<open>detrend=False\<close> both decomposition functions warn that the data are not
  detrended and go on with the anomaly \<open>A\<close>, the Dataset minus its mean along the time
  axis: \<open>A\<close> has the variables and the time axis of the input, and every value of \<open>A\<close>
  is the input value minus the time mean of its own grid cell. In \<^verbatim>\<open>spco2_decomposition\<close>
  the mean is \<^verbatim>\<open>ds_terms.mean('time')\<close>; in \<^verbatim>\<open>spco2_decomposition_index\<close> it is
  \<^verbatim>\<open>nanmean(ds_terms)\<close>.
\<close>

theorem C4_anomaly_without_detrend:
  assumes vars: "set requiredVars \<subseteq> set (names ds)" and dist: "distinct (names ds)"
    and A: "A = minus_reduced ds (mean_time ds)"
  shows "\<exists>sens. spco2_sensitivity ds = Inr sens \<and>
     (\<exists>ev. spco2_decomposition rm_poly ds False order deseasonalize =
             (ev, Inr (reduced_times (mean_time sens) (if deseasonalize then minus_clim A else A))) \<and>
           Warned ''Your data are not being detrended.'' \<in> set ev) \<and>
     (\<exists>ev. spco2_decomposition_index rm_poly linreg ds ind False order deseasonalize plot
               sliding_window =
             (ev, case snd (regress_stage linreg (if deseasonalize then minus_clim A else A)
                              sens ind sliding_window) of
                    Inl e \<Rightarrow> Inl e
                  | Inr r \<Rightarrow> if plot then Inr None else Inr (Some r)) \<and>
           Warned ''Your data are not being detrended.'' \<in> set ev) \<and>
     names A = names ds \<and> time A = time ds \<and>
     (\<forall>k f. getitem ds k = Inr f \<longrightarrow>
        (\<exists>g. getitem A k = Inr g \<and> shape g = shape f \<and>
             (\<forall>c < length f. \<forall>t < length (f ! c). g ! c ! t = f ! c ! t - mean (f ! c))))"
proof -
  from vars obtain sens where s: "spco2_sensitivity ds = Inr sens"
    using sensitivity_ok by blast
  have n: "names A = names ds"
    unfolding A names_def anomaly_vars [OF dist] by (simp add: case_prod_beta comp_def)
  have tm: "time A = time ds"
    unfolding A by (simp add: minus_reduced_def)
  have pt: "\<forall>k f. getitem ds k = Inr f \<longrightarrow>
        (\<exists>g. getitem A k = Inr g \<and> shape g = shape f \<and>
             (\<forall>c < length f. \<forall>t < length (f ! c). g ! c ! t = f ! c ! t - mean (f ! c)))"
    unfolding A using anomaly_getitem [OF dist] anomaly_field by blast
  show ?thesis
    using s decomposition_no_detrend [OF s, of rm_poly order deseasonalize]
      decomposition_index_no_detrend [OF s, of rm_poly linreg ind order deseasonalize plot sliding_window]
      n tm pt
    unfolding A by blast
qed

theorem C4_anomaly_without_detrend_witness:
  "set requiredVars \<subseteq> set (names ds_full) \<and> distinct (names ds_full) \<and>
   getitem ds_full ''tos'' = Inr [[10, 12]] \<and>
   (\<exists>g. getitem (minus_reduced ds_full (mean_time ds_full)) ''tos'' = Inr g \<and>
        g ! 0 ! 1 = 12 - mean [10, 12])"
proof -
  have d: "distinct (names ds_full)"
    by (simp add: names_def ds_full_def)
  have g: "getitem ds_full ''tos'' = Inr [[10, 12]]"
    by (simp add: getitem_def ds_full_def)
  from C4_anomaly_without_detrend [OF names_examples(1) d refl,
      of rm_poly_stub None False linreg_stub ind_two_years False None]
  obtain h where "getitem (minus_reduced ds_full (mean_time ds_full)) ''tos'' = Inr h"
    and "\<forall>c < length [[10, 12 :: real]]. \<forall>t < length ([[10, 12 :: real]] ! c).
           h ! c ! t = [[10, 12]] ! c ! t - mean ([[10, 12]] ! c)"
    using g by blast
  then have "getitem (minus_reduced ds_full (mean_time ds_full)) ''tos'' = Inr h \<and>
      h ! 0 ! 1 = 12 - mean [10, 12]"
    by simp
  then show ?thesis using names_examples(1) d g by blast
qed

section \<open>The sliding-window regression\<close>

lemma window_loop_collects:
  "window_loop linreg anom sens ind n y_end years res =
   res @ map (\<lambda>y1. window_terms linreg anom sens ind y1 (y1 + n))
             (filter (\<lambda>y1. y1 + n \<le> y_end) years)"
  by (induction years arbitrary: res) (simp_all add: Let_def)

lemma rev_last: "ind \<noteq> [] \<Longrightarrow> rev ind = last ind # rev (butlast ind)"
  by (metis append_butlast_last_id rev.simps(2) rev_append rev_rev_ident rev_singleton_conv)

lemma regress_stage_none:
  "snd (regress_stage linreg anom sens ind None) =
   Inr (rtimes (regression_against_index linreg anom ind) (nanmean sens))"
  by (simp add: regress_stage_def)

lemma regress_stage_some:
  assumes "ind \<noteq> []"
  shows "snd (regress_stage linreg anom sens ind (Some n)) =
   concat_mean (map (\<lambda>y1. window_terms linreg anom sens ind y1 (y1 + n))
                    (filter (\<lambda>y1. y1 + n \<le> fst (fst (last ind))) (group_years ind)))"
proof -
  obtain s x where l: "last ind = (s, x)" by (cases "last ind")
  then have r: "rev ind = (s, x) # rev (butlast ind)"
    using rev_last [OF assms] by simp
  show ?thesis
    unfolding regress_stage_def r by (simp add: l window_loop_collects Let_def)
qed

lemma regress_stage_empty_index:
  "regress_stage linreg anom sens [] (Some n) = ([], Inl IndexError)"
  by (simp add: regress_stage_def)

lemma decomposition_index_result:
  assumes "spco2_sensitivity ds = Inr sens" and "\<not> (detrend \<and> falsy order)"
  shows "snd (spco2_decomposition_index rm_poly linreg ds ind detrend order deseasonalize plot
                sliding_window) =
         (case snd (regress_stage linreg
                      (let a = (if detrend then rm_poly ds order else minus_reduced ds (nanmean ds))
                       in if deseasonalize then minus_clim a else a)
                      sens ind sliding_window) of
            Inl e \<Rightarrow> Inl e
          | Inr r \<Rightarrow> if plot then Inr None else Inr (Some r))"
  using assms
  by (auto simp: spco2_decomposition_index_def case_prod_beta Let_def)





lemma years_two: "group_years ind_two_years = [2000, 2001]"
  "fst (fst (last ind_two_years)) = 2001" "ind_two_years \<noteq> []"
  by (simp_all add: group_years_def ind_two_years_def)

lemma sens_full:
  "spco2_sensitivity ds_full =
     Inr \<lparr>time = [(2000, 1), (2001, 12)],
          data_vars = dict_times_array
                        (sensitivity_dict [[2000, 2000]] [[2300, 2300]] [[35, 35]]) [[300, 310]]\<rparr>"
  by (simp add: spco2_sensitivity_def check_variables_def getitem_def ds_full_def requiredVars_def
      names_def)




subsection \<open>No window passes the test\<close>

lemma no_window_concat_empty:
  assumes "spco2_sensitivity ds = Inr sens" and "\<not> (detrend \<and> falsy order)" and "ind \<noteq> []"
    and "filter (\<lambda>y1. y1 + n \<le> fst (fst (last ind))) (group_years ind) = []"
  shows "snd (spco2_decomposition_index rm_poly linreg ds ind detrend order deseasonalize plot (Some n))
         = Inl ConcatEmpty"
  unfolding decomposition_index_result [OF assms(1,2)] regress_stage_some [OF assms(3)] assms(4)
  by (simp add: concat_mean_def)

lemma no_window_fails:
  assumes "filter (\<lambda>y1. y1 + n \<le> fst (fst (last ind))) (group_years ind) = []"
  shows "isl (snd (spco2_decomposition_index rm_poly linreg ds ind detrend order deseasonalize plot (Some n)))"
proof (cases "spco2_sensitivity ds")
  case (Inl e)
  then show ?thesis by (simp add: spco2_decomposition_index_def)
next
  case (Inr sens)
  show ?thesis
  proof (cases "detrend \<and> falsy order")
    case True
    then show ?thesis using decomposition_index_order [OF Inr, of order] by simp
  next
    case False
    show ?thesis
    proof (cases "ind = []")
      case True
      then show ?thesis
        unfolding decomposition_index_result [OF Inr False]
        by (simp add: regress_stage_empty_index)
    next
      case nonempty: False
      show ?thesis
        using no_window_concat_empty [OF Inr False nonempty assms] by simp
    qed
  qed
qed

text \<open>
  Claim C10. When \<^verbatim>\<open>sliding_window=n\<close> and no start year \<open>y1\<close> of the index has \<open>y1 + n\<close>
  not after the last year of the index, the call never returns a result; and when the
  Dataset has the required variables, the order check passes and the index is not empty, the
  list \<^verbatim>\<open>res\<close> of per-window results is empty and the call fails in \<^verbatim>\<open>xr.concat\<close>: there is
  no fall-back to the regression over the whole series.
\<close>

theorem C10_no_window_fails:
  assumes "filter (\<lambda>y1. y1 + n \<le> fst (fst (last ind))) (group_years ind) = []"
  shows "isl (snd (spco2_decomposition_index rm_poly linreg ds ind detrend order deseasonalize plot
                    (Some n))) \<and>
         (set requiredVars \<subseteq> set (names ds) \<and> \<not> (detrend \<and> falsy order) \<and> ind \<noteq> [] \<longrightarrow>
            window_loop linreg anom sens ind n (fst (fst (last ind))) (group_years ind) [] = [] \<and>
            snd (spco2_decomposition_index rm_poly linreg ds ind detrend order deseasonalize plot
                   (Some n)) = Inl ConcatEmpty)"
proof (intro conjI impI)
  show "isl (snd (spco2_decomposition_index rm_poly linreg ds ind detrend order deseasonalize plot
                    (Some n)))"
    using assms by (rule no_window_fails)
next
  assume h: "set requiredVars \<subseteq> set (names ds) \<and> \<not> (detrend \<and> falsy order) \<and> ind \<noteq> []"
  then obtain s where s: "spco2_sensitivity ds = Inr s"
    using sensitivity_ok by blast
  show "window_loop linreg anom sens ind n (fst (fst (last ind))) (group_years ind) [] = []"
    unfolding window_loop_collects assms by simp
  show "snd (spco2_decomposition_index rm_poly linreg ds ind detrend order deseasonalize plot
                   (Some n)) = Inl ConcatEmpty"
    using h no_window_concat_empty [OF s _ _ assms] by blast
qed

theorem C10_no_window_fails_witness:
  "filter (\<lambda>y1. y1 + 2 \<le> fst (fst (last ind_two_years))) (group_years ind_two_years) = [] \<and>
   set requiredVars \<subseteq> set (names ds_full) \<and> \<not> (True \<and> falsy (Some 1)) \<and> ind_two_years \<noteq> [] \<and>
   snd (spco2_decomposition_index rm_poly_stub linreg_stub ds_full ind_two_years True (Some 1) False
          False (Some 2)) = Inl ConcatEmpty"
proof -
  have f: "filter (\<lambda>y1. y1 + 2 \<le> fst (fst (last ind_two_years))) (group_years ind_two_years) = []"
    by (simp add: years_two)
  have o: "\<not> (True \<and> falsy (Some 1))" by (simp add: falsy_def)
  from C10_no_window_fails [OF f, of rm_poly_stub linreg_stub ds_full True "Some 1" False False]
    f o names_examples(1) years_two(3)
  show ?thesis by blast
qed

subsection \<open>A window over the whole series\<close>

lemma transpose_single: "transpose [x] = map (\<lambda>v. [v]) x"
  by (induction x) simp_all

lemma mean_columns: "map mean (transpose [x]) = x"
  by (simp add: transpose_single comp_def mean_def)

lemma concat_mean_single:
  assumes "distinct (map fst r)"
  shows "concat_mean [r] = Inr r"
proof -
  have "map (\<lambda>(k, x). (k, map mean (transpose (List.map_filter (\<lambda>w. map_of w k) [r])))) r =
        map (\<lambda>kx. kx) r"
  proof (rule map_cong)
    fix kx assume "kx \<in> set r"
    then have "map_of r (fst kx) = Some (snd kx)"
      by (intro map_of_is_SomeI assms) simp
    then show "(case kx of (k, x) \<Rightarrow>
        (k, map mean (transpose (List.map_filter (\<lambda>w. map_of w k) [r])))) = kx"
      by (cases kx) (simp add: List.map_filter_def mean_columns)
  qed simp
  then show ?thesis by (simp add: concat_mean_def)
qed

lemma names_rtimes: "map fst (rtimes a b) = filter (\<lambda>k. map_of b k \<noteq> None) (map fst a)"
  unfolding rtimes_def by (induction a) (auto split: option.splits)

lemma names_regression:
  "map fst (regression_against_index linreg ds ind) = filter (\<lambda>k. k \<noteq> ''spco2'') (names ds)"
  by (simp add: regression_against_index_def names_def comp_def case_prod_unfold filter_map)

lemma filter_zip_all:
  assumes "\<forall>s \<in> set ts. P s" and "length xs \<le> length ts"
  shows "map snd (filter (\<lambda>(s, x). P s) (zip ts xs)) = xs"
proof -
  have "filter (\<lambda>(s, x). P s) (zip ts xs) = zip ts xs"
    using assms(1) by (auto simp: filter_id_conv dest: set_zip_leftD)
  then show ?thesis using assms(2) by (simp add: map_snd_zip_take)
qed

lemma sel_time_all:
  assumes "\<forall>s \<in> set (time ds). in_years y1 y2 s"
    and "\<forall>kf \<in> set (data_vars ds). \<forall>xs \<in> set (snd kf). length xs \<le> length (time ds)"
  shows "sel_time y1 y2 ds = ds"
proof -
  have t: "filter (in_years y1 y2) (time ds) = time ds"
    using assms(1) by (simp add: filter_id_conv)
  have "map (\<lambda>(k, f). (k, map (\<lambda>xs. map snd (filter (\<lambda>(s, x). in_years y1 y2 s)
                                              (zip (time ds) xs))) f)) (data_vars ds) =
        map (\<lambda>kf. kf) (data_vars ds)"
  proof (rule map_cong)
    fix kf assume kf: "kf \<in> set (data_vars ds)"
    have "map (\<lambda>xs. map snd (filter (\<lambda>(s, x). in_years y1 y2 s) (zip (time ds) xs))) (snd kf) =
          map (\<lambda>xs. xs) (snd kf)"
      by (rule map_cong) (use assms kf in \<open>auto intro!: filter_zip_all\<close>)
    then show "(case kf of (k, f) \<Rightarrow>
        (k, map (\<lambda>xs. map snd (filter (\<lambda>(s, x). in_years y1 y2 s) (zip (time ds) xs))) f)) = kf"
      by (simp add: case_prod_unfold)
  qed simp
  then show ?thesis
    using t by (simp add: sel_time_def)
qed

lemma one_window_full:
  "snd (spco2_decomposition_index rm_poly linreg ds_full ind_two_years False order False False (Some 1)) =
   snd (spco2_decomposition_index rm_poly linreg ds_full ind_two_years False order False False None)"
proof -
  let ?sens = "\<lparr>time = [(2000, 1), (2001, 12)],
                data_vars = dict_times_array
                  (sensitivity_dict [[2000, 2000]] [[2300, 2300]] [[35, 35]]) [[300, 310]]\<rparr>"
  let ?A = "minus_reduced ds_full (nanmean ds_full)"
  let ?r = "rtimes (regression_against_index linreg ?A ind_two_years) (nanmean ?sens)"
  have no: "\<not> (False \<and> falsy order)" by simp
  have f: "filter (\<lambda>y1. y1 + 1 \<le> fst (fst (last ind_two_years))) (group_years ind_two_years) = [2000]"
    by (simp add: years_two)
  have tA: "time ?A = [(2000, 1), (2001, 12)]"
    by (simp add: minus_reduced_def ds_full_def)
  have nA: "names ?A = names ds_full"
    by (simp add: minus_reduced_def nanmean_def mean_time_def ds_full_def names_def)
  have sA: "sel_time 2000 2001 ?A = ?A"
    by (rule sel_time_all)
       (simp_all add: tA in_years_def, simp add: minus_reduced_def nanmean_def mean_time_def ds_full_def)
  have sS: "sel_time 2000 2001 ?sens = ?sens"
    by (rule sel_time_all)
       (simp_all add: in_years_def dict_times_array_def sensitivity_dict_def times_array_def
          fmap_def fbin_def buffer_factor_ALK_def buffer_factor_DIC_def)
  have sI: "sel_index 2000 2001 ind_two_years = ind_two_years"
    by (simp add: sel_index_def ind_two_years_def in_years_def)
  have "distinct (map fst ?r)"
    unfolding names_rtimes names_regression nA
    by (simp add: names_def ds_full_def)
  then have one: "concat_mean [?r] = Inr ?r"
    by (rule concat_mean_single)
  show ?thesis
    unfolding decomposition_index_result [OF sens_full no]
      regress_stage_some [OF years_two(3)] regress_stage_none f
    by (simp add: window_terms_def Let_def sA sS sI one del: One_nat_def)
qed

text \<open>
  Claim C6 at a concrete input: the index and the Dataset run from January 2000 to
  December 2001, two years. With \<^verbatim>\<open>sliding_window=2\<close>, the length of the series in years, no window passes the
  test \<^verbatim>\<open>y2 <= y_end\<close> and the call fails in \<^verbatim>\<open>xr.concat\<close>, whatever the collaborators compute,
  while with \<^verbatim>\<open>sliding_window=None\<close> the call returns a result. The window that covers the whole
  series is \<^verbatim>\<open>sliding_window=1\<close>, one less than the number of years: there the two modes agree.
\<close>

theorem C6_full_length_window_fails:
  "group_years ind_two_years = [2000, 2001] \<and>
   map fst (time ds_full) = [2000, 2001] \<and>
   snd (spco2_decomposition_index rm_poly linreg ds_full ind_two_years True (Some 1) False False
          (Some 2)) = Inl ConcatEmpty \<and>
   \<not> isl (snd (spco2_decomposition_index rm_poly linreg ds_full ind_two_years True (Some 1) False
               False None)) \<and>
   snd (spco2_decomposition_index rm_poly linreg ds_full ind_two_years False order False False
          (Some 1)) =
   snd (spco2_decomposition_index rm_poly linreg ds_full ind_two_years False order False False None)"
proof -
  obtain sens where s: "spco2_sensitivity ds_full = Inr sens"
    using sensitivity_ok [OF names_examples(1)] by blast
  have o: "\<not> (True \<and> falsy (Some 1))" by (simp add: falsy_def)
  have f: "filter (\<lambda>y1. y1 + 2 \<le> fst (fst (last ind_two_years))) (group_years ind_two_years) = []"
    by (simp add: years_two)
  have a: "snd (spco2_decomposition_index rm_poly linreg ds_full ind_two_years True (Some 1) False
      False (Some 2)) = Inl ConcatEmpty"
    using s o years_two(3) f by (rule no_window_concat_empty)
  have b: "\<not> isl (snd (spco2_decomposition_index rm_poly linreg ds_full ind_two_years True (Some 1)
      False False None))"
    unfolding decomposition_index_result [OF s o] regress_stage_none by simp
  have t: "map fst (time ds_full) = [2000, 2001]" by (simp add: ds_full_def)
  show ?thesis using years_two(1) t a b one_window_full by blast
qed

end
